theory Spec2Isabelle
  imports Complex_Main
begin

section \<open>Texts and dictionaries\<close>

text \<open>
  A Python \<^verbatim>\<open>str\<close> is a sequence of Unicode code points, and \<^verbatim>\<open>len\<close>, \<^verbatim>\<open>in\<close>,
  \<^verbatim>\<open>count\<close> and \<^verbatim>\<open>startswith\<close> work on code points. The word sets of the program are
  Thai, so a text is a list of code points (natural numbers), not a list of bytes.
  Python floats are modelled by the reals.
\<close>

type_synonym str = "nat list"

text \<open>\<^verbatim>\<open>d.get(k, default)\<close>\<close>

definition dict_get :: "('k \<rightharpoonup> 'v) \<Rightarrow> 'k \<Rightarrow> 'v \<Rightarrow> 'v" where
  "dict_get d k dflt = (case d k of None \<Rightarrow> dflt | Some v \<Rightarrow> v)"

text \<open>\<^verbatim>\<open>t.startswith(w)\<close>\<close>

fun startswith :: "str \<Rightarrow> str \<Rightarrow> bool" where
  "startswith t [] = True"
| "startswith [] (c # w) = False"
| "startswith (d # t) (c # w) = (if d = c then startswith t w else False)"

text \<open>\<^verbatim>\<open>w in t\<close> for two strings: \<open>w\<close> occurs in \<open>t\<close> as a contiguous block.\<close>

fun str_in :: "str \<Rightarrow> str \<Rightarrow> bool" where
  "str_in w [] = (w = [])"
| "str_in w (c # t) = (if startswith (c # t) w then True else str_in w t)"

section \<open>utils.py\<close>

definition POS_WORDS :: "str list" where
  "POS_WORDS =
   [[3604, 3637, 3617, 3634, 3585],
    [3648, 3618, 3637, 3656, 3618, 3617],
    [3626, 3640, 3604, 3618, 3629, 3604],
    [3586, 3629, 3610, 3588, 3640, 3603],
    [3626, 3623, 3618],
    [3648, 3585, 3656, 3591],
    [3606, 3641, 3585, 3605, 3657, 3629, 3591],
    [3594, 3633, 3604, 3648, 3592, 3609],
    [3649, 3617, 3656, 3609, 3618, 3635],
    [3619, 3633, 3585],
    [3649, 3609, 3632, 3609, 3635],
    [3618, 3636, 3609, 3604, 3637],
    [3618, 3629, 3604, 3648, 3618, 3637, 3656, 3618, 3617],
    [3648, 3623, 3636, 3619, 3660, 3585],
    [3648, 3623, 3636, 3619, 3660, 3588],
    [3648, 3627, 3617, 3634, 3632, 3626, 3617],
    [3585, 3657, 3634, 3623, 3627, 3609, 3657, 3634],
    [3626, 3635, 3648, 3619, 3655, 3592]]"

definition NEG_WORDS :: "str list" where
  "NEG_WORDS =
   [[3649, 3618, 3656],
    [3652, 3617, 3656, 3604, 3637],
    [3612, 3636, 3604],
    [3614, 3633, 3591],
    [3650, 3585, 3619, 3608],
    [3585, 3621, 3633, 3623],
    [3585, 3633, 3591, 3623, 3621],
    [3627, 3656, 3623, 3618],
    [3591, 3591],
    [3626, 3633, 3610, 3626, 3609],
    [3621, 3657, 3617, 3648, 3627, 3621, 3623],
    [3618, 3634, 3585],
    [3649, 3618, 3656, 3617, 3634, 3585],
    [3594, 3657, 3634],
    [3609, 3656, 3634, 3585, 3621, 3633, 3623],
    [3649, 3618, 3656, 3626, 3640, 3604, 3654]]"

definition VOL_WORDS :: "str list" where
  "VOL_WORDS =
   [[3648, 3619, 3656, 3591, 3604, 3656, 3623, 3609],
    [3604, 3656, 3623, 3609],
    [3623, 3636, 3585, 3620, 3605],
    [3612, 3633, 3609, 3612, 3623, 3609],
    [3649, 3619, 3591],
    [3649, 3619, 3591, 3617, 3634, 3585],
    [3626, 3623, 3636, 3591],
    [3612, 3633, 3609, 3612, 3623, 3609, 3626, 3641, 3591]]"

text \<open>
  \<^verbatim>\<open>sum(1 for w in WORDS if w in t)\<close>: the number of words of the set that occur in
  \<open>t\<close>. The three sets are written as the lists of their (pairwise distinct) literals.
\<close>

definition matches :: "str list \<Rightarrow> str \<Rightarrow> int" where
  "matches ws t = int (length (filter (\<lambda>w. str_in w t) ws))"

text \<open>
  \<^verbatim>\<open>str.lower\<close> is a builtin whose Unicode case tables are not part of the program;
  the functions that call it take it as the parameter \<open>lower\<close>. \<open>ascii_lower\<close> is
  what it does on texts of ASCII and caseless (Thai) code points.
\<close>

definition ascii_lower :: "str \<Rightarrow> str" where
  "ascii_lower t = map (\<lambda>c. if 65 \<le> c \<and> c \<le> 90 then c + 32 else c) t"

definition simple_sentiment :: "(str \<Rightarrow> str) \<Rightarrow> str \<Rightarrow> real" where
  "simple_sentiment lower txt =
     (let t = lower txt;
          pos = matches POS_WORDS t;
          neg = matches NEG_WORDS t
      in if pos = 0 \<and> neg = 0 then 0
         else let score = real_of_int (pos - neg) / real_of_int (max 1 (pos + neg))
              in max (- 1) (min 1 score))"

definition volatility_hint :: "(str \<Rightarrow> str) \<Rightarrow> str \<Rightarrow> real" where
  "volatility_hint lower txt =
     (let t = lower txt;
          vol = matches VOL_WORDS t
      in min 1 (real_of_int vol / 3))"

definition clamp :: "real \<Rightarrow> real \<Rightarrow> real \<Rightarrow> real" where
  "clamp v lo hi = max lo (min hi v)"

section \<open>evc_engine.py\<close>

text \<open>
  The configuration is a dictionary of sections; the engine reads the numbers of its
  \<^verbatim>\<open>"evc"\<close> section, each with a default.
\<close>

type_synonym config = "string \<rightharpoonup> (string \<rightharpoonup> real)"

record EVCEngine =
  E :: real
  loss :: real
  K :: real
  clamp_low :: real
  clamp_high :: real
  overheat_th :: real
  fear_th :: real
  cooldown_m :: real
  stability :: real

definition EVCEngine_init :: "config \<Rightarrow> EVCEngine" where
  "EVCEngine_init cfg =
     (let evc = dict_get cfg ''evc'' Map.empty
      in \<lparr> E = dict_get evc ''E_init'' 0.5,
           loss = dict_get evc ''loss'' 0.02,
           K = dict_get evc ''K'' 0.45,
           clamp_low = dict_get evc ''clamp_low'' 0.0,
           clamp_high = dict_get evc ''clamp_high'' 1.5,
           overheat_th = dict_get evc ''overheat_threshold'' 1.1,
           fear_th = dict_get evc ''fear_threshold'' 0.25,
           cooldown_m = dict_get evc ''cooldown_margin'' 0.05,
           stability = 0.5 \<rparr>)"

definition phase :: "EVCEngine \<Rightarrow> string" where
  "phase s =
     (if E s \<ge> overheat_th s then ''overheat''
      else if E s \<le> fear_th s then ''fear''
      else if \<bar>E s - 0.5\<bar> \<le> cooldown_m s then ''cooldown''
      else if E s > 0.55 then ''focus''
      else ''calm'')"

text \<open>The dictionary an update returns; only the reflection update has the key \<^verbatim>\<open>"K"\<close>.\<close>

record update_info =
  info_E :: real
  info_phase :: string
  info_dE :: real
  info_source :: string
  info_K :: "real option"

definition update_from_text ::
  "(str \<Rightarrow> str) \<Rightarrow> EVCEngine \<Rightarrow> str \<Rightarrow> update_info \<times> EVCEngine" where
  "update_from_text lower s user_text =
     (let sent = simple_sentiment lower user_text;
          vol = volatility_hint lower user_text;
          dE = K s * (0.25 * sent + 0.35 * vol);
          s1 = s\<lparr>E := clamp (E s + dE - loss s) (clamp_low s) (clamp_high s)\<rparr>
      in (\<lparr> info_E = E s1, info_phase = phase s1, info_dE = dE,
             info_source = ''perception'', info_K = None \<rparr>, s1))"

type_synonym vector = "string \<rightharpoonup> real"

definition update_from_reflection ::
  "EVCEngine \<Rightarrow> vector \<Rightarrow> update_info \<times> EVCEngine" where
  "update_from_reflection s v =
     (let coh = dict_get v ''coherence'' 0.6;
          tox = dict_get v ''toxicity'' 0.0;
          sat = dict_get v ''satisfaction'' 0.5;
          verb = dict_get v ''verbosity'' 0.5;
          dE = K s * (- 0.3 * coh + 0.4 * tox - 0.2 * sat + 0.05 * verb);
          s1 = s\<lparr>E := clamp (E s + dE - 0.5 * loss s) (clamp_low s) (clamp_high s)\<rparr>;
          target_stability = 1.0 - min 1.0 \<bar>E s1 - 0.5\<bar>;
          s2 = s1\<lparr>stability := 0.8 * stability s1 + 0.2 * target_stability\<rparr>;
          s3 = s2\<lparr>K := clamp (K s2 * (0.98 + 0.04 * stability s2)) 0.25 0.75\<rparr>
      in (\<lparr> info_E = E s3, info_phase = phase s3, info_dE = dE,
             info_source = ''reflection'', info_K = Some (K s3) \<rparr>, s3))"

text \<open>
  The callers use one engine object for a whole session and call the two updates on it
  in some order. \<open>run_updates\<close> lists the state after each call.
\<close>

datatype update = Perception str | Reflection vector

fun apply_update :: "(str \<Rightarrow> str) \<Rightarrow> EVCEngine \<Rightarrow> update \<Rightarrow> EVCEngine" where
  "apply_update lower s (Perception t) = snd (update_from_text lower s t)"
| "apply_update lower s (Reflection v) = snd (update_from_reflection s v)"

fun run_updates :: "(str \<Rightarrow> str) \<Rightarrow> EVCEngine \<Rightarrow> update list \<Rightarrow> EVCEngine list" where
  "run_updates lower s [] = []"
| "run_updates lower s (u # us) =
     apply_update lower s u # run_updates lower (apply_update lower s u) us"

text \<open>
  A configuration is valid when its clamp bounds are ordered and its initial \<open>K\<close> lies
  between the bounds the code uses for \<open>K\<close>, the constants 0.25 and 0.75.
\<close>

definition valid_config :: "config \<Rightarrow> bool" where
  "valid_config cfg =
     (clamp_low (EVCEngine_init cfg) \<le> clamp_high (EVCEngine_init cfg) \<and>
      0.25 \<le> K (EVCEngine_init cfg) \<and> K (EVCEngine_init cfg) \<le> 0.75)"

text \<open>
  The phase rules as the specification words them: an ordered list of pairs of a
  predicate on \<open>E\<close> and a phase, read top-down, the first match winning, with
  \<^verbatim>\<open>calm\<close> as the default.
\<close>

definition spec_phase_rules :: "real \<Rightarrow> real \<Rightarrow> real \<Rightarrow> ((real \<Rightarrow> bool) \<times> string) list" where
  "spec_phase_rules overheat_threshold fear_threshold cooldown_margin =
     [(\<lambda>e. e \<ge> overheat_threshold, ''overheat''),
      (\<lambda>e. e \<le> fear_threshold, ''fear''),
      (\<lambda>e. \<bar>e - 0.5\<bar> \<le> cooldown_margin, ''cooldown''),
      (\<lambda>e. e > 0.55, ''focus'')]"

fun first_match :: "((real \<Rightarrow> bool) \<times> string) list \<Rightarrow> string \<Rightarrow> real \<Rightarrow> string" where
  "first_match [] dflt e = dflt"
| "first_match ((p, l) # rules) dflt e = (if p e then l else first_match rules dflt e)"

definition spec_phase :: "real \<Rightarrow> real \<Rightarrow> real \<Rightarrow> real \<Rightarrow> string" where
  "spec_phase overheat_threshold fear_threshold cooldown_margin e =
     first_match (spec_phase_rules overheat_threshold fear_threshold cooldown_margin) ''calm'' e"

text \<open>A reflection vector with all four fields present.\<close>

definition mk_vector :: "real \<Rightarrow> real \<Rightarrow> real \<Rightarrow> real \<Rightarrow> vector" where
  "mk_vector coherence toxicity satisfaction verbosity =
     [''coherence'' \<mapsto> coherence, ''toxicity'' \<mapsto> toxicity,
      ''satisfaction'' \<mapsto> satisfaction, ''verbosity'' \<mapsto> verbosity]"


section \<open>enhanced\_dual\_ai.py: the conversation memory\<close>

datatype error = ValueError | AttributeError | TypeError | OverflowError

text \<open>
  \<^verbatim>\<open>collections.deque(maxlen=n)\<close>: a negative \<open>n\<close> is rejected with ValueError. An
  append to a deque of capacity 0 does nothing; otherwise the element goes to the right
  end and, if the deque is then longer than its capacity, the leftmost element is
  dropped.
\<close>

record 'a deque =
  items :: "'a list"
  maxlen :: nat

definition deque_new :: "int \<Rightarrow> error + 'a deque" where
  "deque_new n = (if n < 0 then Inl ValueError else Inr \<lparr> items = [], maxlen = nat n \<rparr>)"

definition deque_append :: "'a deque \<Rightarrow> 'a \<Rightarrow> 'a deque" where
  "deque_append d x =
     (if maxlen d = 0 then d
      else let ys = items d @ [x]
           in d\<lparr>items := (if length ys > maxlen d then tl ys else ys)\<rparr>)"

text \<open>A turn; \<open>'e\<close> is the type of the state dictionary stored with it.\<close>

record 'e turn =
  timestamp :: str
  speaker :: str
  message :: str
  response :: str
  evc_state :: 'e

record 'e ConversationMemory =
  turns :: "'e turn deque"
  full_history :: "'e turn list"
  summary :: str
  key_points :: "str list"

definition ConversationMemory_init :: "int \<Rightarrow> error + 'e ConversationMemory" where
  "ConversationMemory_init max_turns =
     (case deque_new max_turns of
        Inl e \<Rightarrow> Inl e
      | Inr d \<Rightarrow> Inr \<lparr> turns = d, full_history = [], summary = [], key_points = [] \<rparr>)"

text \<open>
  \<open>add_turn\<close> reads the clock for the timestamp; the value read is the argument
  \<open>now\<close>.
\<close>

definition add_turn ::
  "'e ConversationMemory \<Rightarrow> str \<Rightarrow> str \<Rightarrow> str \<Rightarrow> str \<Rightarrow> 'e \<Rightarrow> 'e ConversationMemory" where
  "add_turn m now spk msg resp st =
     (let t = \<lparr> timestamp = now, speaker = spk, message = msg, response = resp,
                evc_state = st \<rparr>
      in m\<lparr>turns := deque_append (turns m) t, full_history := full_history m @ [t]\<rparr>)"

text \<open>Appending a sequence of turns, one \<open>add_turn\<close> call after the other.\<close>

fun add_turns :: "'e ConversationMemory \<Rightarrow> 'e turn list \<Rightarrow> 'e ConversationMemory" where
  "add_turns m [] = m"
| "add_turns m (t # ts) =
     add_turns (add_turn m (timestamp t) (speaker t) (message t) (response t) (evc_state t)) ts"

section \<open>reflection.py\<close>

text \<open>
  \<^verbatim>\<open>t.count(w)\<close>: the number of occurrences of \<open>w\<close> in \<open>t\<close> that do not overlap,
  found from left to right; the empty string occurs \<open>len(t) + 1\<close> times.
\<close>

function count_sub :: "str \<Rightarrow> str \<Rightarrow> nat" where
  "count_sub [] w = (if w = [] then 1 else 0)"
| "count_sub (c # t) w =
     (if w = [] then 1 + count_sub t w
      else if startswith (c # t) w then 1 + count_sub (drop (length w) (c # t)) w
      else count_sub t w)"
  by pat_completeness auto
termination
  by (relation "measure (\<lambda>(t, w). length t)") auto

text \<open>\<^verbatim>\<open>c.isspace()\<close> for one code point: the white space characters of Unicode.\<close>

definition isspace :: "nat \<Rightarrow> bool" where
  "isspace c =
     ((9 \<le> c \<and> c \<le> 13) \<or> (28 \<le> c \<and> c \<le> 32) \<or> c = 133 \<or> c = 160 \<or> c = 5760 \<or>
      (8192 \<le> c \<and> c \<le> 8202) \<or> c = 8232 \<or> c = 8233 \<or> c = 8239 \<or> c = 8287 \<or>
      c = 12288)"

text \<open>
  \<^verbatim>\<open>t.split()\<close>: the maximal runs of characters that are not white space, in
  order. \<open>split_from cur t\<close> has \<open>cur\<close> as the run read so far.
\<close>

fun split_from :: "str \<Rightarrow> str \<Rightarrow> str list" where
  "split_from cur [] = (if cur = [] then [] else [cur])"
| "split_from cur (c # t) =
     (if isspace c then (if cur = [] then split_from [] t else cur # split_from [] t)
      else split_from (cur @ [c]) t)"

definition split_str :: "str \<Rightarrow> str list" where
  "split_str t = split_from [] t"

text \<open>\<^verbatim>\<open>t.strip()\<close>: \<open>t\<close> without its leading and trailing white space.\<close>

definition strip :: "str \<Rightarrow> str" where
  "strip t = rev (dropWhile isspace (rev (dropWhile isspace t)))"

definition toxic_words :: "str list" where
  "toxic_words =
     [[3650, 3591, 3656],
      [3648, 3585, 3621, 3637, 3618, 3604],
      [3626, 3623, 3632],
      [3594, 3633, 3591],
      [3648, 3606, 3637, 3618, 3591],
      [3627, 3618, 3634, 3610, 3588, 3634, 3618]]"

definition c01 :: "real \<Rightarrow> real" where
  "c01 x = max 0 (min 1 x)"

definition reflect :: "str \<Rightarrow> str \<Rightarrow> vector" where
  "reflect user_input draft_answer =
     (let coherence =
            min 1 (real (length draft_answer) / 300 +
                   0.2 * real (count_sub draft_answer [45, 32] + count_sub draft_answer [10, 10]));
          toxicity = (if list_ex (\<lambda>w. str_in w draft_answer) toxic_words then 1 else 0);
          satisfaction =
            min 1 (real (card (set (split_str user_input) \<inter> set (split_str draft_answer))) /
                   (real (card (set (split_str user_input))) + 1 / 1000000) + 0.2);
          verbosity = min 1 (real (length draft_answer) / 800)
      in [''coherence'' \<mapsto> c01 coherence, ''toxicity'' \<mapsto> c01 toxicity,
          ''satisfaction'' \<mapsto> c01 satisfaction, ''verbosity'' \<mapsto> c01 verbosity])"

section \<open>core\_llm.py and web.py: a chat turn\<close>

text \<open>
  The prefix by which the callers recognise a failed backend call: the warning sign
  U+26A0 followed by the variation selector U+FE0F.
\<close>

definition failure_marker :: str where
  "failure_marker = [9888, 65039]"

text \<open>
  \<open>_fallback_response\<close>: what \<open>generate\<close> returns when the backend cannot be
  reached. In mode \<^verbatim>\<open>evc\<close> it is a JSON text made from the last state (the argument
  \<open>evc_json\<close>, the result of \<^verbatim>\<open>json.dumps\<close>); in every other mode it is a fixed
  message that starts with the failure marker.
\<close>

definition fallback_response :: "str \<Rightarrow> string \<Rightarrow> str" where
  "fallback_response evc_json mode =
     (if mode = ''evc'' then evc_json
      else [9888, 65039, 32, 3652, 3617, 3656, 3626, 3634, 3617, 3634, 3619, 3606, 3648,
            3594, 3639, 3656, 3629, 3617, 3605, 3656, 3629, 32, 76, 76, 77, 32, 3652, 3604,
            3657, 32, 3585, 3619, 3640, 3603, 3634, 3605, 3619, 3623, 3592, 3626, 3629,
            3610, 3585, 3634, 3619, 3648, 3594, 3639, 3656, 3629, 3617, 3605, 3656, 3629])"

text \<open>The canned reply of the chat page.\<close>

definition canned_reply :: str where
  "canned_reply =
     [3586, 3629, 3629, 3616, 3633, 3618, 3588, 3656, 3632, 32, 3619, 3632, 3610, 3610,
      3617, 3637, 3611, 3633, 3597, 3627, 3634, 3594, 3633, 3656, 3623, 3588, 3619, 3634,
      3623, 32, 3585, 3619, 3640, 3603, 3634, 3621, 3629, 3591, 3651, 3627, 3617, 3656,
      3629, 3637, 3585, 3588, 3619, 3633, 3657, 3591]"

text \<open>The part of the page's session state that a turn writes.\<close>

record session =
  chat_log :: "(str \<times> str) list"
  E_vals :: "real list"
  K_vals :: "real list"
  phase_vals :: "string list"
  last_dE :: real
  processing :: bool

text \<open>
  The submit handler of the chat form. \<open>raw_answer\<close> is the string that
  \<open>llm.generate\<close> returned for this turn; the tone and the system prompt only feed
  that call. \<open>reflect\<close> does not raise on strings, so the handler's \<open>except\<close>
  branches are not taken; saving the turn to the memory file does not touch the engine
  or the session.
\<close>

definition chat_submit ::
  "(str \<Rightarrow> str) \<Rightarrow> str \<Rightarrow> bool \<Rightarrow> str \<Rightarrow> EVCEngine \<times> session \<Rightarrow> EVCEngine \<times> session" where
  "chat_submit lower raw_answer submit user_input st =
     (let evc = fst st; sess = snd st
      in if submit \<and> strip user_input \<noteq> [] \<and> \<not> processing sess then
           let sess1 = sess\<lparr>processing := True\<rparr>;
               (info1, evc1) = update_from_text lower evc user_input;
               sess2 = sess1\<lparr>last_dE := info_dE info1\<rparr>;
               answer = (if startswith raw_answer failure_marker then canned_reply
                         else raw_answer);
               rvec = reflect user_input answer;
               (info2, evc2) = update_from_reflection evc1 rvec;
               sess3 = sess2\<lparr>chat_log := chat_log sess2 @ [(user_input, answer)],
                            E_vals := E_vals sess2 @ [info_E info2],
                            K_vals := K_vals sess2 @
                                      [case info_K info2 of None \<Rightarrow> 0 | Some k \<Rightarrow> k],
                            phase_vals := phase_vals sess2 @ [info_phase info2]\<rparr>
           in (evc2, sess3\<lparr>processing := False\<rparr>)
         else st)"

section \<open>The scorer on values that are not strings\<close>

text \<open>
  Python checks no types at a call, so the scorer can be handed any value. A value
  without a \<open>lower\<close> method makes \<^verbatim>\<open>text.lower()\<close> raise AttributeError; a bytes
  object has that method, and the first \<^verbatim>\<open>w in t\<close> with a string \<open>w\<close> then raises
  TypeError.
\<close>

datatype pyval = PyStr str | PyNone | PyInt int | PyFloat real | PyBytes "nat list"

fun simple_sentiment_dyn :: "(str \<Rightarrow> str) \<Rightarrow> pyval \<Rightarrow> error + real" where
  "simple_sentiment_dyn lower (PyStr t) = Inr (simple_sentiment lower t)"
| "simple_sentiment_dyn lower (PyBytes b) = Inl TypeError"
| "simple_sentiment_dyn lower v = Inl AttributeError"

fun volatility_hint_dyn :: "(str \<Rightarrow> str) \<Rightarrow> pyval \<Rightarrow> error + real" where
  "volatility_hint_dyn lower (PyStr t) = Inr (volatility_hint lower t)"
| "volatility_hint_dyn lower (PyBytes b) = Inl TypeError"
| "volatility_hint_dyn lower v = Inl AttributeError"

fun is_str :: "pyval \<Rightarrow> bool" where
  "is_str (PyStr t) = True"
| "is_str v = False"

section \<open>The reflection update on fields that are not floats\<close>




section \<open>Properties of the engine\<close>

lemma clamp_bounds: "lo \<le> hi \<Longrightarrow> lo \<le> clamp v lo hi \<and> clamp v lo hi \<le> hi"
  by (simp add: clamp_def)

lemma reflection_E:
  "E (snd (update_from_reflection s v)) =
     clamp (E s + K s * (- 0.3 * dict_get v ''coherence'' 0.6 + 0.4 * dict_get v ''toxicity'' 0
                         - 0.2 * dict_get v ''satisfaction'' 0.5 + 0.05 * dict_get v ''verbosity'' 0.5)
            - 0.5 * loss s) (clamp_low s) (clamp_high s)"
  by (simp add: update_from_reflection_def Let_def)

lemma reflection_stability:
  "stability (snd (update_from_reflection s v)) =
     0.8 * stability s + 0.2 * (1 - min 1 \<bar>E (snd (update_from_reflection s v)) - 0.5\<bar>)"
  by (simp add: update_from_reflection_def Let_def)

lemma reflection_K:
  "K (snd (update_from_reflection s v)) =
     clamp (K s * (0.98 + 0.04 * stability (snd (update_from_reflection s v)))) 0.25 0.75"
  by (simp add: update_from_reflection_def Let_def)

lemma reflection_dE:
  "info_dE (fst (update_from_reflection s v)) =
     K s * (- 0.3 * dict_get v ''coherence'' 0.6 + 0.4 * dict_get v ''toxicity'' 0
            - 0.2 * dict_get v ''satisfaction'' 0.5 + 0.05 * dict_get v ''verbosity'' 0.5)"
  by (simp add: update_from_reflection_def Let_def)

lemma reflection_frame:
  "loss (snd (update_from_reflection s v)) = loss s \<and>
   clamp_low (snd (update_from_reflection s v)) = clamp_low s \<and>
   clamp_high (snd (update_from_reflection s v)) = clamp_high s \<and>
   overheat_th (snd (update_from_reflection s v)) = overheat_th s \<and>
   fear_th (snd (update_from_reflection s v)) = fear_th s \<and>
   cooldown_m (snd (update_from_reflection s v)) = cooldown_m s"
  by (simp add: update_from_reflection_def Let_def)

lemma text_state:
  "snd (update_from_text lower s t) =
     s\<lparr>E := clamp (E s + K s * (0.25 * simple_sentiment lower t + 0.35 * volatility_hint lower t) - loss s)
                 (clamp_low s) (clamp_high s)\<rparr>"
  by (simp add: update_from_text_def Let_def)

lemma mk_vector_get:
  "dict_get (mk_vector c t s v) ''coherence'' d = c"
  "dict_get (mk_vector c t s v) ''toxicity'' d = t"
  "dict_get (mk_vector c t s v) ''satisfaction'' d = s"
  "dict_get (mk_vector c t s v) ''verbosity'' d = v"
  by (simp_all add: mk_vector_def dict_get_def)

text \<open>
  C3. For every reflection vector with fields \<open>coh\<close>, \<open>tox\<close>, \<open>sat\<close>, \<open>verb\<close>,
  \<open>update_from_reflection\<close> computes
  \<open>dE = K * (-0.3*coh + 0.4*tox - 0.2*sat + 0.05*verb)\<close>, sets
  \<open>E_new = clamp (E + dE - 0.5*loss)\<close> between the clamp bounds of \<open>E\<close>, then
  \<open>stability_new = 0.8*stability + 0.2*(1 - min 1 |E_new - 0.5|)\<close> and
  \<open>K_new = clamp (K * (0.98 + 0.04*stability_new))\<close> between 0.25 and 0.75.
\<close>

theorem reflection_update_formula:
  "info_dE (fst (update_from_reflection s (mk_vector coh tox sat verb))) =
     K s * (- 0.3 * coh + 0.4 * tox - 0.2 * sat + 0.05 * verb) \<and>
   E (snd (update_from_reflection s (mk_vector coh tox sat verb))) =
     clamp (E s + K s * (- 0.3 * coh + 0.4 * tox - 0.2 * sat + 0.05 * verb) - 0.5 * loss s)
           (clamp_low s) (clamp_high s) \<and>
   stability (snd (update_from_reflection s (mk_vector coh tox sat verb))) =
     0.8 * stability s +
     0.2 * (1 - min 1 \<bar>E (snd (update_from_reflection s (mk_vector coh tox sat verb))) - 0.5\<bar>) \<and>
   K (snd (update_from_reflection s (mk_vector coh tox sat verb))) =
     clamp (K s * (0.98 + 0.04 * stability (snd (update_from_reflection s (mk_vector coh tox sat verb)))))
           0.25 0.75"
  using reflection_dE [of s "mk_vector coh tox sat verb"]
        reflection_E [of s "mk_vector coh tox sat verb"]
        reflection_stability [of s "mk_vector coh tox sat verb"]
        reflection_K [of s "mk_vector coh tox sat verb"]
  by (simp only: mk_vector_get)

text \<open>
  C6. \<open>update_from_text\<close> changes only \<open>E\<close>: for every text and every starting state
  the state after the call is the state before it with a new \<open>E\<close>, so \<open>K\<close> and the
  stability accumulator keep their values. A turn whose reflection step is skipped
  therefore leaves \<open>K\<close> at its value before the turn.
\<close>

theorem perception_changes_only_E:
  "snd (update_from_text lower s t) = s\<lparr>E := E (snd (update_from_text lower s t))\<rparr> \<and>
   K (snd (update_from_text lower s t)) = K s \<and>
   stability (snd (update_from_text lower s t)) = stability s"
  by (simp add: text_state)

text \<open>
  C2. The phase is a function of \<open>E\<close> and the three thresholds alone, and it is the
  first match of the ordered rules overheat, fear, cooldown, focus with calm as the
  default. With the default thresholds 1.1, 0.25 and 0.05: \<open>E = 1.15\<close> is overheat,
  \<open>E = 0.20\<close> is fear, \<open>E = 0.50\<close> is cooldown, \<open>E = 0.60\<close> is focus and
  \<open>E = 0.40\<close> is calm.
\<close>

theorem phase_first_match:
  "phase s = spec_phase (overheat_th s) (fear_th s) (cooldown_m s) (E s) \<and>
   phase ((EVCEngine_init Map.empty)\<lparr>E := 1.15\<rparr>) = ''overheat'' \<and>
   phase ((EVCEngine_init Map.empty)\<lparr>E := 0.20\<rparr>) = ''fear'' \<and>
   phase ((EVCEngine_init Map.empty)\<lparr>E := 0.50\<rparr>) = ''cooldown'' \<and>
   phase ((EVCEngine_init Map.empty)\<lparr>E := 0.60\<rparr>) = ''focus'' \<and>
   phase ((EVCEngine_init Map.empty)\<lparr>E := 0.40\<rparr>) = ''calm''"
  by (simp add: phase_def spec_phase_def spec_phase_rules_def EVCEngine_init_def dict_get_def)

text \<open>
  C10. After every call of \<open>update_from_reflection\<close>, whatever the state and the
  vector, \<open>K\<close> lies between 0.25 and 0.75: these bounds are constants of the code and
  are not read from the configuration. So an engine built from any configuration, also
  one whose \<^verbatim>\<open>"K"\<close> is outside that interval, has \<open>K\<close> inside it after its first
  reflection update.
\<close>

theorem reflection_K_fixed_interval:
  "0.25 \<le> K (snd (update_from_reflection s v)) \<and>
   K (snd (update_from_reflection s v)) \<le> 0.75 \<and>
   0.25 \<le> K (snd (update_from_reflection (EVCEngine_init cfg) v)) \<and>
   K (snd (update_from_reflection (EVCEngine_init cfg) v)) \<le> 0.75"
  using clamp_bounds [of "0.25" "0.75"] by (simp add: reflection_K)

section \<open>The clamping invariant\<close>

lemma apply_update_bounds:
  assumes "clamp_low s \<le> clamp_high s"
  shows "clamp_low (apply_update lower s u) = clamp_low s \<and>
         clamp_high (apply_update lower s u) = clamp_high s \<and>
         clamp_low s \<le> E (apply_update lower s u) \<and>
         E (apply_update lower s u) \<le> clamp_high s"
proof (cases u)
  case (Perception t)
  then show ?thesis
    using clamp_bounds [OF assms] by (simp add: text_state)
next
  case (Reflection v)
  then show ?thesis
    using clamp_bounds [OF assms] by (simp add: reflection_E reflection_frame)
qed

lemma apply_update_K:
  assumes "0.25 \<le> K s" "K s \<le> 0.75"
  shows "0.25 \<le> K (apply_update lower s u) \<and> K (apply_update lower s u) \<le> 0.75"
proof (cases u)
  case (Perception t)
  with assms show ?thesis by (simp add: text_state)
next
  case (Reflection v)
  then show ?thesis
    using clamp_bounds [of "0.25" "0.75"] by (simp add: reflection_K)
qed

lemma run_updates_bounds:
  assumes "clamp_low s \<le> clamp_high s" "0.25 \<le> K s" "K s \<le> 0.75"
      and "s' \<in> set (run_updates lower s us)"
  shows "clamp_low s \<le> E s' \<and> E s' \<le> clamp_high s \<and> 0.25 \<le> K s' \<and> K s' \<le> 0.75"
  using assms
proof (induction us arbitrary: s)
  case Nil
  then show ?case by simp
next
  case (Cons u us)
  let ?s1 = "apply_update lower s u"
  have b: "clamp_low ?s1 = clamp_low s" "clamp_high ?s1 = clamp_high s"
          "clamp_low s \<le> E ?s1" "E ?s1 \<le> clamp_high s"
    using apply_update_bounds [OF Cons.prems(1)] by simp_all
  have k: "0.25 \<le> K ?s1" "K ?s1 \<le> 0.75"
    using apply_update_K [OF Cons.prems(2,3)] by simp_all
  from Cons.prems(4) consider "s' = ?s1" | "s' \<in> set (run_updates lower ?s1 us)"
    by auto
  then show ?case
  proof cases
    case 1
    with b k show ?thesis by simp
  next
    case 2
    have "clamp_low ?s1 \<le> clamp_high ?s1" using b Cons.prems(1) by simp
    from Cons.IH [OF this k 2] b show ?thesis by simp
  qed
qed

text \<open>
  C1. For every valid configuration and every finite sequence of perception and
  reflection updates on an engine built from it, after each update \<open>E\<close> lies between
  the configured clamp bounds and \<open>K\<close> lies between its bounds 0.25 and 0.75.
\<close>

theorem clamping_invariant:
  "valid_config cfg \<Longrightarrow>
   \<forall>s' \<in> set (run_updates lower (EVCEngine_init cfg) us).
     clamp_low (EVCEngine_init cfg) \<le> E s' \<and> E s' \<le> clamp_high (EVCEngine_init cfg) \<and>
     0.25 \<le> K s' \<and> K s' \<le> 0.75"
  using run_updates_bounds [of "EVCEngine_init cfg" _ lower us]
  by (auto simp add: valid_config_def)

lemma length_run_updates: "length (run_updates lower s us) = length us"
  by (induction us arbitrary: s) simp_all

lemma valid_config_default: "valid_config Map.empty"
  by (simp add: valid_config_def EVCEngine_init_def dict_get_def)

theorem clamping_invariant_witness:
  "valid_config Map.empty \<and>
   length (run_updates ascii_lower (EVCEngine_init Map.empty)
             [Perception [3619, 3633, 3585], Reflection Map.empty]) = 2 \<and>
   0 \<le> E (last (run_updates ascii_lower (EVCEngine_init Map.empty)
             [Perception [3619, 3633, 3585], Reflection Map.empty])) \<and>
   E (last (run_updates ascii_lower (EVCEngine_init Map.empty)
             [Perception [3619, 3633, 3585], Reflection Map.empty])) \<le> 1.5 \<and>
   0.25 \<le> K (last (run_updates ascii_lower (EVCEngine_init Map.empty)
             [Perception [3619, 3633, 3585], Reflection Map.empty])) \<and>
   K (last (run_updates ascii_lower (EVCEngine_init Map.empty)
             [Perception [3619, 3633, 3585], Reflection Map.empty])) \<le> 0.75"
proof -
  let ?us = "[Perception [3619, 3633, 3585], Reflection Map.empty]"
  let ?r = "run_updates ascii_lower (EVCEngine_init Map.empty) ?us"
  have n: "?r \<noteq> []" by simp
  then have m: "last ?r \<in> set ?r" by (rule last_in_set)
  have lo: "clamp_low (EVCEngine_init Map.empty) = 0" "clamp_high (EVCEngine_init Map.empty) = 1.5"
    by (simp_all add: EVCEngine_init_def dict_get_def)
  from clamping_invariant [OF valid_config_default, of ascii_lower ?us] m
  have "clamp_low (EVCEngine_init Map.empty) \<le> E (last ?r) \<and>
        E (last ?r) \<le> clamp_high (EVCEngine_init Map.empty) \<and>
        0.25 \<le> K (last ?r) \<and> K (last ?r) \<le> 0.75"
    by blast
  with lo valid_config_default length_run_updates [of ascii_lower "EVCEngine_init Map.empty" ?us]
  show ?thesis by simp
qed

section \<open>Properties of the conversation memory\<close>

lemma deque_append_items:
  assumes "length (items d) \<le> maxlen d"
  shows "items (deque_append d x) = drop (length (items d) + 1 - maxlen d) (items d @ [x]) \<and>
         maxlen (deque_append d x) = maxlen d"
proof -
  consider (full) "length (items d) = maxlen d" | (room) "length (items d) < maxlen d"
    using assms by linarith
  then show ?thesis
  proof cases
    case full
    then show ?thesis
      by (cases "items d") (simp_all add: deque_append_def Let_def)
  next
    case room
    then show ?thesis
      by (simp add: deque_append_def Let_def)
  qed
qed

lemma window_step:
  assumes "length xs \<le> n"
  shows "drop (length (drop (length xs + 1 - n) (xs @ [t])) + length ts - n)
              (drop (length xs + 1 - n) (xs @ [t]) @ ts) =
         drop (length xs + length (t # ts) - n) (xs @ t # ts)"
proof -
  consider (full) "length xs = n" | (room) "length xs < n"
    using assms by linarith
  then show ?thesis
  proof cases
    case full
    then show ?thesis by (cases xs) auto
  next
    case room
    then show ?thesis by simp
  qed
qed

lemma add_turns_window:
  "length (items (turns m)) \<le> maxlen (turns m) \<Longrightarrow>
   items (turns (add_turns m ts)) =
     drop (length (items (turns m)) + length ts - maxlen (turns m)) (items (turns m) @ ts) \<and>
   maxlen (turns (add_turns m ts)) = maxlen (turns m) \<and>
   full_history (add_turns m ts) = full_history m @ ts"
proof (induction ts arbitrary: m)
  case Nil
  then show ?case by simp
next
  case (Cons t ts)
  let ?m1 = "add_turn m (timestamp t) (speaker t) (message t) (response t) (evc_state t)"
  have t: "\<lparr> timestamp = timestamp t, speaker = speaker t, message = message t,
             response = response t, evc_state = evc_state t \<rparr> = t"
    by simp
  have tm: "turns ?m1 = deque_append (turns m) t" "full_history ?m1 = full_history m @ [t]"
    by (simp_all add: add_turn_def Let_def t)
  note da = deque_append_items [OF Cons.prems, of t]
  have len: "length (items (turns ?m1)) \<le> maxlen (turns ?m1)"
    using da Cons.prems by (simp add: tm)
  note ih = Cons.IH [OF len]
  have "items (turns (add_turns m (t # ts))) = items (turns (add_turns ?m1 ts))"
    by simp
  also have "\<dots> = drop (length (items (turns ?m1)) + length ts - maxlen (turns ?m1))
                        (items (turns ?m1) @ ts)"
    using ih by simp
  also have "\<dots> = drop (length (items (turns m)) + length (t # ts) - maxlen (turns m))
                        (items (turns m) @ t # ts)"
    using window_step [OF Cons.prems, of t ts] da by (simp only: tm)
  finally have w: "items (turns (add_turns m (t # ts))) =
      drop (length (items (turns m)) + length (t # ts) - maxlen (turns m))
           (items (turns m) @ t # ts)" .
  have c: "maxlen (turns (add_turns m (t # ts))) = maxlen (turns m)"
    using ih da by (simp add: tm)
  have h: "full_history (add_turns m (t # ts)) = full_history m @ t # ts"
    using ih by (simp add: tm)
  from w c h show ?case by simp
qed

text \<open>
  C8. For every capacity \<open>N\<close> and every sequence of \<open>N + 1\<close> appended turns, a
  conversation memory created with \<open>max_turns = N\<close> ends with its window holding
  exactly the most recent \<open>N\<close> turns (all but the first) and its archive holding all
  \<open>N + 1\<close> turns, both in the order of the appends.
\<close>

theorem window_and_archive:
  "ConversationMemory_init (int N) = Inr m0 \<Longrightarrow> length ts = N + 1 \<Longrightarrow>
   items (turns (add_turns m0 ts)) = drop 1 ts \<and>
   length (items (turns (add_turns m0 ts))) = N \<and>
   full_history (add_turns m0 ts) = ts"
proof -
  assume i: "ConversationMemory_init (int N) = Inr m0" and l: "length ts = N + 1"
  from i have m0: "items (turns m0) = []" "maxlen (turns m0) = N" "full_history m0 = []"
    by (auto simp add: ConversationMemory_init_def deque_new_def)
  then have "length (items (turns m0)) \<le> maxlen (turns m0)" by simp
  from add_turns_window [OF this, of ts] m0 l show ?thesis by simp
qed

theorem window_and_archive_witness:
  "ConversationMemory_init (int 1) =
     Inr \<lparr> turns = \<lparr> items = [], maxlen = 1 \<rparr>, full_history = ([] :: unit turn list),
           summary = [], key_points = [] \<rparr> \<and>
   items (turns (add_turns \<lparr> turns = \<lparr> items = [], maxlen = 1 \<rparr>, full_history = [],
                            summary = [], key_points = [] \<rparr>
      [\<lparr> timestamp = [49], speaker = [65], message = [104, 105], response = [121, 111], evc_state = () \<rparr>,
       \<lparr> timestamp = [50], speaker = [66], message = [121, 111], response = [104, 105], evc_state = () \<rparr>]))
   = [\<lparr> timestamp = [50], speaker = [66], message = [121, 111], response = [104, 105], evc_state = () \<rparr>]"
proof -
  let ?m0 = "\<lparr> turns = \<lparr> items = [], maxlen = 1 \<rparr>, full_history = ([] :: unit turn list),
           summary = [], key_points = [] \<rparr>"
  let ?ts = "[\<lparr> timestamp = [49], speaker = [65], message = [104, 105], response = [121, 111], evc_state = () \<rparr>,
       \<lparr> timestamp = [50], speaker = [66], message = [121, 111], response = [104, 105], evc_state = () \<rparr>]"
  have i: "ConversationMemory_init (int 1) = Inr ?m0"
    by (simp add: ConversationMemory_init_def deque_new_def)
  have l: "length ?ts = 1 + 1" by simp
  from window_and_archive [OF i l] i show ?thesis by simp
qed

section \<open>Properties of the lexicon scorer\<close>

lemma matches_nonneg: "0 \<le> matches ws t"
  by (simp add: matches_def)

lemma sentiment_cases:
  "simple_sentiment lower t =
     (if matches POS_WORDS (lower t) = 0 \<and> matches NEG_WORDS (lower t) = 0 then 0
      else real_of_int (matches POS_WORDS (lower t) - matches NEG_WORDS (lower t)) /
           real_of_int (matches POS_WORDS (lower t) + matches NEG_WORDS (lower t)))"
proof -
  let ?p = "matches POS_WORDS (lower t)" and ?n = "matches NEG_WORDS (lower t)"
  have p: "0 \<le> ?p" and n: "0 \<le> ?n" by (rule matches_nonneg)+
  show ?thesis
  proof (cases "?p = 0 \<and> ?n = 0")
    case True
    then show ?thesis by (simp add: simple_sentiment_def Let_def)
  next
    case False
    with p n have pos: "1 \<le> ?p + ?n" by linarith
    then have m: "max 1 (?p + ?n) = ?p + ?n" by simp
    have d: "0 < real_of_int (?p + ?n)" using pos by simp
    have up: "real_of_int (?p - ?n) / real_of_int (?p + ?n) \<le> 1"
      using d n by (simp add: divide_le_eq)
    have lo: "- 1 \<le> real_of_int (?p - ?n) / real_of_int (?p + ?n)"
      using d p by (simp add: le_divide_eq)
    from False m up lo show ?thesis
      by (simp add: simple_sentiment_def Let_def)
  qed
qed

lemma sentiment_range: "- 1 \<le> simple_sentiment lower t \<and> simple_sentiment lower t \<le> 1"
proof -
  let ?p = "matches POS_WORDS (lower t)" and ?n = "matches NEG_WORDS (lower t)"
  have p: "0 \<le> ?p" and n: "0 \<le> ?n" by (rule matches_nonneg)+
  note c = sentiment_cases [of lower t]
  show ?thesis
  proof (cases "?p = 0 \<and> ?n = 0")
    case True
    then show ?thesis by (simp add: c)
  next
    case False
    with p n have d: "0 < real_of_int (?p + ?n)" by simp linarith
    from False d p n show ?thesis
      by (simp add: c divide_le_eq le_divide_eq)
  qed
qed

lemma volatility_range: "0 \<le> volatility_hint lower t \<and> volatility_hint lower t \<le> 1"
  using matches_nonneg [of VOL_WORDS "lower t"] by (simp add: volatility_hint_def Let_def)

text \<open>
  C7. For every text, with \<open>pos\<close> and \<open>neg\<close> the numbers of positive and negative
  words that occur in the lowercased text: the sentiment is exactly 0 when both are 0 and
  \<open>(pos - neg) / (pos + neg)\<close> otherwise; it is exactly 1 when only positive words
  occur and exactly -1 when only negative words occur; and it always lies between -1
  and 1.
\<close>

theorem sentiment_formula:
  "simple_sentiment lower t =
     (if matches POS_WORDS (lower t) = 0 \<and> matches NEG_WORDS (lower t) = 0 then 0
      else real_of_int (matches POS_WORDS (lower t) - matches NEG_WORDS (lower t)) /
           real_of_int (matches POS_WORDS (lower t) + matches NEG_WORDS (lower t))) \<and>
   (0 < matches POS_WORDS (lower t) \<and> matches NEG_WORDS (lower t) = 0
      \<longrightarrow> simple_sentiment lower t = 1) \<and>
   (matches POS_WORDS (lower t) = 0 \<and> 0 < matches NEG_WORDS (lower t)
      \<longrightarrow> simple_sentiment lower t = - 1) \<and>
   - 1 \<le> simple_sentiment lower t \<and> simple_sentiment lower t \<le> 1"
proof -
  let ?p = "matches POS_WORDS (lower t)" and ?n = "matches NEG_WORDS (lower t)"
  have p: "0 \<le> ?p" and n: "0 \<le> ?n" by (rule matches_nonneg)+
  note c = sentiment_cases [of lower t]
  have a: "0 < ?p \<and> ?n = 0 \<longrightarrow> simple_sentiment lower t = 1"
    by (simp add: c)
  have b: "?p = 0 \<and> 0 < ?n \<longrightarrow> simple_sentiment lower t = - 1"
    by (simp add: c)
  note r = sentiment_range [of lower t]
  from c a b r show ?thesis by blast
qed

text \<open>
  Two texts for the one-sided cases: the positive word U+0E23 U+0E31 U+0E01 and the
  negative word U+0E1C U+0E34 U+0E14, each a text of its own.
\<close>

lemma pos_only_text_pos: "matches POS_WORDS (ascii_lower [3619, 3633, 3585]) = 1"
  by (simp add: matches_def POS_WORDS_def ascii_lower_def)
lemma pos_only_text_neg: "matches NEG_WORDS (ascii_lower [3619, 3633, 3585]) = 0"
  by (simp add: matches_def NEG_WORDS_def ascii_lower_def)
lemma neg_only_text_pos: "matches POS_WORDS (ascii_lower [3612, 3636, 3604]) = 0"
  by (simp add: matches_def POS_WORDS_def ascii_lower_def)
lemma neg_only_text_neg: "matches NEG_WORDS (ascii_lower [3612, 3636, 3604]) = 1"
  by (simp add: matches_def NEG_WORDS_def ascii_lower_def)

theorem sentiment_formula_witness:
  "0 < matches POS_WORDS (ascii_lower [3619, 3633, 3585]) \<and>
   matches NEG_WORDS (ascii_lower [3619, 3633, 3585]) = 0 \<and>
   simple_sentiment ascii_lower [3619, 3633, 3585] = 1 \<and>
   matches POS_WORDS (ascii_lower [3612, 3636, 3604]) = 0 \<and>
   0 < matches NEG_WORDS (ascii_lower [3612, 3636, 3604]) \<and>
   simple_sentiment ascii_lower [3612, 3636, 3604] = - 1"
  using sentiment_formula [of ascii_lower "[3619, 3633, 3585]"]
        sentiment_formula [of ascii_lower "[3612, 3636, 3604]"]
  by (simp only: pos_only_text_pos pos_only_text_neg neg_only_text_pos neg_only_text_neg) simp

section \<open>Missing fields and out-of-range values in the reflection update\<close>

lemma default_engine_fields:
  "E (EVCEngine_init Map.empty) = 0.5" "K (EVCEngine_init Map.empty) = 0.45"
  "loss (EVCEngine_init Map.empty) = 0.02" "clamp_low (EVCEngine_init Map.empty) = 0"
  "clamp_high (EVCEngine_init Map.empty) = 1.5" "stability (EVCEngine_init Map.empty) = 0.5"
  by (simp_all add: EVCEngine_init_def dict_get_def)










section \<open>The scorer on text and on other values\<close>


lemma matches_empty:
  "matches POS_WORDS [] = 0" "matches NEG_WORDS [] = 0" "matches VOL_WORDS [] = 0"
  by (simp_all add: matches_def POS_WORDS_def NEG_WORDS_def VOL_WORDS_def)

text \<open>
  C9 as stated, that a value which is not a text scores 0.0 and 0.0 without an error,
  fails: on \<^verbatim>\<open>None\<close> both functions raise AttributeError.
\<close>

theorem scorer_non_text_counterexample:
  "simple_sentiment_dyn ascii_lower PyNone = Inl AttributeError \<and>
   volatility_hint_dyn ascii_lower PyNone = Inl AttributeError \<and>
   simple_sentiment_dyn ascii_lower PyNone \<noteq> Inr 0 \<and>
   volatility_hint_dyn ascii_lower PyNone \<noteq> Inr 0"
  by simp

lemma empty_scores: "lower t = [] \<Longrightarrow> simple_sentiment lower t = 0 \<and> volatility_hint lower t = 0"
  by (simp add: simple_sentiment_def volatility_hint_def matches_empty)

lemma dyn_raises: "\<not> is_str v \<Longrightarrow> isl (simple_sentiment_dyn lower v) \<and> isl (volatility_hint_dyn lower v)"
  by (cases v) simp_all

text \<open>
  C9, amended. On every text both functions return a score and raise nothing, the
  sentiment lies between -1 and 1 and the volatility between 0 and 1, and a text whose lowercased form is empty (the empty
  text) scores sentiment 0.0 and volatility 0.0. A value that is not a text is not
  treated as the empty text: the call raises an error.
\<close>

theorem scorer_on_text_only:
  "simple_sentiment_dyn lower (PyStr t) = Inr (simple_sentiment lower t) \<and>
   volatility_hint_dyn lower (PyStr t) = Inr (volatility_hint lower t) \<and>
   - 1 \<le> simple_sentiment lower t \<and> simple_sentiment lower t \<le> 1 \<and>
   0 \<le> volatility_hint lower t \<and> volatility_hint lower t \<le> 1 \<and>
   (lower t = [] \<longrightarrow> simple_sentiment lower t = 0 \<and> volatility_hint lower t = 0) \<and>
   (\<not> is_str v \<longrightarrow> isl (simple_sentiment_dyn lower v) \<and> isl (volatility_hint_dyn lower v))"
  using sentiment_range [of lower t] volatility_range [of lower t]
        empty_scores [of lower t] dyn_raises [of v lower]
  by simp

theorem scorer_on_text_only_witness:
  "ascii_lower [] = [] \<and> simple_sentiment ascii_lower [] = 0 \<and>
   volatility_hint ascii_lower [] = 0 \<and> \<not> is_str (PyInt 7) \<and>
   isl (simple_sentiment_dyn ascii_lower (PyInt 7)) \<and>
   isl (volatility_hint_dyn ascii_lower (PyInt 7))"
proof -
  have l: "ascii_lower [] = []" by (simp add: ascii_lower_def)
  have n: "\<not> is_str (PyInt 7)" by simp
  from scorer_on_text_only [of ascii_lower "[]" "PyInt 7"] l n show ?thesis by blast
qed

section \<open>A turn whose backend call failed\<close>

lemma chat_submit_failed:
  assumes "submit" "strip user_input \<noteq> []" "\<not> processing sess"
      and "startswith raw_answer failure_marker"
  shows "fst (chat_submit lower raw_answer submit user_input (evc, sess)) =
           snd (update_from_reflection (snd (update_from_text lower evc user_input))
                                       (reflect user_input canned_reply))"
    and "chat_log (snd (chat_submit lower raw_answer submit user_input (evc, sess))) =
           chat_log sess @ [(user_input, canned_reply)]"
    and "\<not> processing (snd (chat_submit lower raw_answer submit user_input (evc, sess)))"
    and "length (E_vals (snd (chat_submit lower raw_answer submit user_input (evc, sess)))) =
           length (E_vals sess) + 1"
    and "length (K_vals (snd (chat_submit lower raw_answer submit user_input (evc, sess)))) =
           length (K_vals sess) + 1"
  using assms by (simp_all add: chat_submit_def Let_def case_prod_beta)

lemma fallback_marked: "mode \<noteq> ''evc'' \<Longrightarrow> startswith (fallback_response j mode) failure_marker"
  by (simp add: fallback_response_def failure_marker_def)

text \<open>The turn used below: the user text \<^verbatim>\<open>hi\<close> on an engine with the default configuration.\<close>

lemma hi_not_blank: "strip [104, 105] \<noteq> []"
  by (simp add: strip_def isspace_def)

lemma reflect_hi_canned: "reflect [104,105] canned_reply = mk_vector (1/6) 0 (1/5) (1/16)"
  by (simp add: reflect_def canned_reply_def Let_def split_str_def isspace_def toxic_words_def c01_def mk_vector_def)

lemma hi_scores: "simple_sentiment ascii_lower [104, 105] = 0" "volatility_hint ascii_lower [104, 105] = 0"
  by (simp_all add: simple_sentiment_def volatility_hint_def matches_def ascii_lower_def
        POS_WORDS_def NEG_WORDS_def VOL_WORDS_def)

lemma hi_perceived:
  "snd (update_from_text ascii_lower (EVCEngine_init Map.empty) [104, 105]) =
     (EVCEngine_init Map.empty)\<lparr>E := 0.48\<rparr>"
  by (simp add: text_state hi_scores default_engine_fields clamp_def)

lemma reflected_E:
  "E (snd (update_from_reflection ((EVCEngine_init Map.empty)\<lparr>E := 0.48\<rparr>) (mk_vector c t s v))) =
     clamp (0.48 + 0.45 * (- 0.3 * c + 0.4 * t - 0.2 * s + 0.05 * v) - 0.01) 0 1.5"
  by (simp add: reflection_E mk_vector_get default_engine_fields)

text \<open>
  C4 as stated, that the update after a failed backend call uses the neutral reflection
  defaults, fails. On the default engine, with the user text \<^verbatim>\<open>hi\<close> and the backend's
  fallback message as the answer, the turn ends with \<open>E = 0.43090625\<close>; the neutral
  defaults would give \<open>E = 0.35525\<close>.
\<close>

theorem backend_failure_counterexample:
  "startswith (fallback_response [] ''chat'') failure_marker \<and>
   E (fst (chat_submit ascii_lower (fallback_response [] ''chat'') True [104, 105]
            (EVCEngine_init Map.empty,
             \<lparr> chat_log = [], E_vals = [], K_vals = [], phase_vals = [], last_dE = 0,
               processing = False \<rparr>))) = 13789 / 32000 \<and>
   E (snd (update_from_reflection
            (snd (update_from_text ascii_lower (EVCEngine_init Map.empty) [104, 105]))
            (mk_vector 0.6 0 0.5 0.5))) = 1421 / 4000"
proof -
  let ?raw = "fallback_response [] ''chat''"
  let ?sess = "\<lparr> chat_log = [], E_vals = [], K_vals = [], phase_vals = [], last_dE = 0,
               processing = False \<rparr>"
  have m: "startswith ?raw failure_marker"
    by (rule fallback_marked) simp
  have p: "\<not> processing ?sess" by simp
  have "fst (chat_submit ascii_lower ?raw True [104, 105] (EVCEngine_init Map.empty, ?sess)) =
          snd (update_from_reflection
                 (snd (update_from_text ascii_lower (EVCEngine_init Map.empty) [104, 105]))
                 (reflect [104, 105] canned_reply))"
    by (rule chat_submit_failed(1) [OF TrueI hi_not_blank p m])
  then have a: "E (fst (chat_submit ascii_lower ?raw True [104, 105]
                     (EVCEngine_init Map.empty, ?sess))) = 13789 / 32000"
    by (simp only: hi_perceived reflect_hi_canned reflected_E) (simp add: clamp_def)
  have b: "E (snd (update_from_reflection
            (snd (update_from_text ascii_lower (EVCEngine_init Map.empty) [104, 105]))
            (mk_vector 0.6 0 0.5 0.5))) = 1421 / 4000"
    by (simp only: hi_perceived reflected_E) (simp add: clamp_def)
  from m a b show ?thesis by blast
qed

text \<open>
  C4, amended. The fallback message of the backend (chat mode) starts with the failure
  marker. When the answer of the backend starts with the marker, the submit handler
  puts the canned reply in its place, and the state updates of the turn still occur:
  the perception update, then the reflection update with the vector that \<open>reflect\<close>
  computes from the user text and the canned reply (not the neutral defaults). The turn
  is logged and the handler is ready for the next one, so the session does not stall.
\<close>

theorem backend_failure_turn:
  assumes "submit" and "strip user_input \<noteq> []" and "\<not> processing sess"
      and "startswith raw_answer failure_marker"
  shows "startswith (fallback_response evc_json ''chat'') failure_marker \<and>
         fst (chat_submit lower raw_answer submit user_input (evc, sess)) =
           snd (update_from_reflection (snd (update_from_text lower evc user_input))
                                       (reflect user_input canned_reply)) \<and>
         chat_log (snd (chat_submit lower raw_answer submit user_input (evc, sess))) =
           chat_log sess @ [(user_input, canned_reply)] \<and>
         length (E_vals (snd (chat_submit lower raw_answer submit user_input (evc, sess)))) =
           length (E_vals sess) + 1 \<and>
         length (K_vals (snd (chat_submit lower raw_answer submit user_input (evc, sess)))) =
           length (K_vals sess) + 1 \<and>
         \<not> processing (snd (chat_submit lower raw_answer submit user_input (evc, sess)))"
proof -
  have "startswith (fallback_response evc_json ''chat'') failure_marker"
    by (rule fallback_marked) simp
  with chat_submit_failed [OF assms, of lower evc] show ?thesis by blast
qed

theorem backend_failure_turn_witness:
  "strip [104, 105] \<noteq> [] \<and>
   startswith (fallback_response [] ''chat'') failure_marker \<and>
   chat_log (snd (chat_submit ascii_lower (fallback_response [] ''chat'') True [104, 105]
            (EVCEngine_init Map.empty,
             \<lparr> chat_log = [], E_vals = [], K_vals = [], phase_vals = [], last_dE = 0,
               processing = False \<rparr>))) = [([104, 105], canned_reply)] \<and>
   \<not> processing (snd (chat_submit ascii_lower (fallback_response [] ''chat'') True [104, 105]
            (EVCEngine_init Map.empty,
             \<lparr> chat_log = [], E_vals = [], K_vals = [], phase_vals = [], last_dE = 0,
               processing = False \<rparr>)))"
proof -
  let ?raw = "fallback_response [] ''chat''"
  let ?sess = "\<lparr> chat_log = [], E_vals = [], K_vals = [], phase_vals = [], last_dE = 0,
               processing = False \<rparr>"
  have m: "startswith ?raw failure_marker"
    by (rule fallback_marked) simp
  have p: "\<not> processing ?sess" by simp
  from backend_failure_turn [OF TrueI hi_not_blank p m, of "[]" ascii_lower "EVCEngine_init Map.empty"]
       hi_not_blank
  show ?thesis by simp
qed

end
